theory Spec2Isabelle
  imports Complex_Main "HOL-Library.Word" "HOL-Library.Sublist" "HOL-Library.Log_Nat"
begin

section \<open>JavaScript values\<close>

text \<open>
  A JavaScript string is a sequence of UTF-16 code units. The string literals of the
  source are ASCII and are written with \<open>js\<close>.
\<close>

type_synonym jsstring = "16 word list"

definition js :: "string \<Rightarrow> jsstring" where
  "js s = map of_char s"

text \<open>
  \<open>String.prototype.trim\<close> strips the code units of ECMAScript's WhiteSpace and
  LineTerminator productions from both ends.
\<close>

definition is_white_space :: "16 word \<Rightarrow> bool" where
  "is_white_space u =
     (u = 0x9 \<or> u = 0xA \<or> u = 0xB \<or> u = 0xC \<or> u = 0xD \<or> u = 0x20 \<or> u = 0xA0 \<or>
      u = 0x1680 \<or> (0x2000 \<le> u \<and> u \<le> 0x200A) \<or> u = 0x2028 \<or> u = 0x2029 \<or>
      u = 0x202F \<or> u = 0x205F \<or> u = 0x3000 \<or> u = 0xFEFF)"

definition trim :: "jsstring \<Rightarrow> jsstring" where
  "trim s = rev (dropWhile is_white_space (rev (dropWhile is_white_space s)))"

text \<open>\<open>a || b\<close> on an optional string: \<open>undefined\<close> and the empty string are falsy.\<close>

definition or_else :: "jsstring option \<Rightarrow> jsstring \<Rightarrow> jsstring" where
  "or_else m d = (case m of None \<Rightarrow> d | Some t \<Rightarrow> if t = [] then d else t)"

section \<open>The course builder (AddCourse.jsx)\<close>

subsection \<open>Data\<close>

text \<open>
  Numbers are JavaScript doubles. Order values and lengths are natural numbers far below
  \<open>2 ^ 53\<close>, where double arithmetic on integers is exact, so they are modelled as \<open>nat\<close>.
  A duration is the finite number that \<open>Number\<close> makes of the text of the duration input.
\<close>

record lecture =
  lectureId :: jsstring
  lectureTitle :: jsstring
  lectureDuration :: real
  lectureUrl :: jsstring
  isPreviewFree :: bool
  lectureOrder :: nat

record course_chapter =
  chapterId :: jsstring
  chapterTitle :: jsstring
  chapterContent :: "lecture list"
  collapsed :: bool
  chapterOrder :: nat

text \<open>
  The duration field of the lecture popup is an \<open>input\<close> of type \<open>number\<close>: its value is the
  empty string, or a valid floating-point number, here with the number \<open>Number\<close> converts it to.
\<close>

datatype number_input = Blank | Entered real

text \<open>The draft of the popup, \<open>lectureDetails\<close>; its fields carry the suffix \<open>_in\<close>.\<close>

record lecture_details =
  lectureTitle_in :: jsstring
  lectureDuration_in :: number_input
  lectureUrl_in :: jsstring
  isPreviewFree_in :: bool

text \<open>
  \<open>coursePrice\<close> and \<open>discount\<close> start as the number 0 and hold the text of their input
  afterwards.
\<close>

datatype field_value = NumberValue real | InputText jsstring

record image_file =
  file_name :: jsstring
  file_type :: jsstring
  file_size :: nat

datatype toast = ToastError "jsstring option" | ToastSuccess "jsstring option"

text \<open>
  The multipart body of the request: \<open>courseData\<close> and the image. The price and the discount
  are the field values that \<open>Number\<close> is applied to when the body is serialised.
\<close>

record request =
  sent_courseTitle :: jsstring
  sent_courseDescription :: jsstring
  sent_coursePrice :: field_value
  sent_discount :: field_value
  sent_courseContent :: "course_chapter list"
  sent_image :: image_file

text \<open>
  The component state (the field \<open>image\<close> is written \<open>image'\<close>), the content of the
  rich-text editor, which is \<open>quillRef.current.root.innerHTML\<close> (\<open>None\<close> while
  \<open>quillRef.current\<close> is null), and what the component has done to the outside: the
  notifications shown, the object URLs created and revoked, the requests posted.
\<close>

record builder =
  courseTitle :: jsstring
  coursePrice :: field_value
  discount :: field_value
  image' :: "image_file option"
  imagePreview :: jsstring
  chapters :: "course_chapter list"
  showPopup :: bool
  currentChapterId :: "jsstring option"
  lectureDetails :: lecture_details
  editorHtml :: "jsstring option"
  toasts :: "toast list"
  created :: "(jsstring \<times> image_file) list"
  revoked :: "jsstring list"
  requests :: "request list"

definition empty_details :: lecture_details where
  "empty_details =
     \<lparr>lectureTitle_in = [], lectureDuration_in = Blank, lectureUrl_in = [],
      isPreviewFree_in = False\<rparr>"

text \<open>
  The editor is Quill, a library outside the repository. Its root always holds at least one
  block: an empty document is the empty paragraph \<open><p><br></p>\<close>, and when the root is
  emptied from outside the editor, which observes its root, puts the empty paragraph back
  before any further event. \<open>quill_html h\<close> is what the root holds when its content was set
  to \<open>h\<close>.
\<close>

definition quill_empty :: jsstring where
  "quill_empty = js ''<p><br></p>''"

definition quill_html :: "jsstring \<Rightarrow> jsstring" where
  "quill_html h = (if trim h = [] then quill_empty else h)"

text \<open>
  The component once it is mounted: the state hooks hold their initial values, and the
  effect that runs after the first render has created the editor on its empty container.
\<close>

definition initial :: builder where
  "initial =
     \<lparr>courseTitle = [], coursePrice = NumberValue 0, discount = NumberValue 0, image' = None,
      imagePreview = [], chapters = [], showPopup = False, currentChapterId = None,
      lectureDetails = empty_details, editorHtml = Some (quill_html []), toasts = [],
      created = [], revoked = [], requests = []\<rparr>"

definition toast_error :: "jsstring option \<Rightarrow> builder \<Rightarrow> builder" where
  "toast_error m s = s\<lparr>toasts := toasts s @ [ToastError m]\<rparr>"

definition toast_success :: "jsstring option \<Rightarrow> builder \<Rightarrow> builder" where
  "toast_success m s = s\<lparr>toasts := toasts s @ [ToastSuccess m]\<rparr>"

subsection \<open>Chapters\<close>

text \<open>
  \<open>handleChapter(action, chapterId)\<close>. The action \<open>add\<close> carries what \<open>prompt\<close> returned
  (\<open>None\<close> when cancelled) and the identifier \<open>uniqid()\<close> returns.
\<close>

datatype chapter_action =
  AddChapter "jsstring option" jsstring
  | RemoveChapter jsstring
  | ToggleChapter jsstring

definition next_chapter_order :: "course_chapter list \<Rightarrow> nat" where
  "next_chapter_order cs = (if length cs > 0 then chapterOrder (last cs) + 1 else 1)"

fun handleChapter :: "chapter_action \<Rightarrow> builder \<Rightarrow> builder" where
  "handleChapter (AddChapter title uid) s =
     (case title of
        None \<Rightarrow> s
      | Some t \<Rightarrow>
          if t = [] then s
          else s\<lparr>chapters := chapters s @
                 [\<lparr>chapterId = uid, chapterTitle = t, chapterContent = [], collapsed = False,
                   chapterOrder = next_chapter_order (chapters s)\<rparr>]\<rparr>)"
| "handleChapter (RemoveChapter cid) s =
     s\<lparr>chapters := filter (\<lambda>c. chapterId c \<noteq> cid) (chapters s)\<rparr>"
| "handleChapter (ToggleChapter cid) s =
     s\<lparr>chapters :=
          map (\<lambda>c. if chapterId c = cid then c\<lparr>collapsed := \<not> collapsed c\<rparr> else c)
            (chapters s)\<rparr>"

subsection \<open>Lectures\<close>

text \<open>
  \<open>splice(start, 1)\<close>: a negative start counts from the end, and a start at or beyond the
  length removes nothing.
\<close>

definition splice1 :: "int \<Rightarrow> 'a list \<Rightarrow> 'a list" where
  "splice1 start xs =
     (let n = int (length xs);
          k = nat (if start < 0 then max (n + start) 0 else min start n)
      in take k xs @ drop (Suc k) xs)"

text \<open>
  The \<open>forEach\<close> that sets \<open>lecture.lectureOrder = index + 1\<close>, from the given index on. The
  source assigns to the lecture objects, which the list of the previous state shares; that
  state is not read again, so the model returns the renumbered lectures.
\<close>

fun renumber :: "nat \<Rightarrow> lecture list \<Rightarrow> lecture list" where
  "renumber i [] = []"
| "renumber i (l # ls) = l\<lparr>lectureOrder := i + 1\<rparr> # renumber (Suc i) ls"

datatype lecture_action = AddLecture jsstring | RemoveLecture jsstring int

fun handleLecture :: "lecture_action \<Rightarrow> builder \<Rightarrow> builder" where
  "handleLecture (AddLecture cid) s = s\<lparr>currentChapterId := Some cid, showPopup := True\<rparr>"
| "handleLecture (RemoveLecture cid lectureIndex) s =
     s\<lparr>chapters :=
          map (\<lambda>c. if chapterId c = cid
                    then c\<lparr>chapterContent := renumber 0 (splice1 lectureIndex (chapterContent c))\<rparr>
                    else c)
            (chapters s)\<rparr>"

definition new_lecture :: "jsstring \<Rightarrow> lecture_details \<Rightarrow> real \<Rightarrow> course_chapter \<Rightarrow> lecture" where
  "new_lecture uid d duration c =
     \<lparr>lectureId = uid, lectureTitle = trim (lectureTitle_in d), lectureDuration = duration,
      lectureUrl = trim (lectureUrl_in d), isPreviewFree = isPreviewFree_in d,
      lectureOrder = length (chapterContent c) + 1\<rparr>"

text \<open>\<open>handleSaveLecture()\<close>, with the identifier \<open>uniqid()\<close> returns.\<close>

definition handleSaveLecture :: "jsstring \<Rightarrow> builder \<Rightarrow> builder" where
  "handleSaveLecture uid s =
     (case currentChapterId s of
        None \<Rightarrow> s
      | Some cid \<Rightarrow>
          if cid = [] then s
          else if trim (lectureTitle_in (lectureDetails s)) = []
          then toast_error (Some (js ''Please enter lecture title'')) s
          else
            (case lectureDuration_in (lectureDetails s) of
               Blank \<Rightarrow> toast_error (Some (js ''Please enter valid lecture duration'')) s
             | Entered q \<Rightarrow>
                 if q \<le> 0
                 then toast_error (Some (js ''Please enter valid lecture duration'')) s
                 else if trim (lectureUrl_in (lectureDetails s)) = []
                 then toast_error (Some (js ''Please enter lecture URL'')) s
                 else s\<lparr>chapters :=
                          map (\<lambda>c. if chapterId c = cid
                                    then c\<lparr>chapterContent := chapterContent c @
                                           [new_lecture uid (lectureDetails s) q c]\<rparr>
                                    else c)
                            (chapters s),
                        showPopup := False, currentChapterId := None,
                        lectureDetails := empty_details\<rparr>))"

text \<open>The lectures of a chapter carry the orders 1, 2, ... in list order.\<close>

definition numbered :: "course_chapter \<Rightarrow> bool" where
  "numbered c = (map lectureOrder (chapterContent c) = [1..<Suc (length (chapterContent c))])"

subsection \<open>Thumbnail\<close>

text \<open>
  \<open>handleImageChange(e)\<close>, with \<open>e.target.files[0]\<close> (\<open>None\<close> when no file was chosen) and
  the URL that \<open>URL.createObjectURL\<close> returns if it is called.
\<close>

definition handleImageChange :: "image_file option \<Rightarrow> jsstring \<Rightarrow> builder \<Rightarrow> builder" where
  "handleImageChange f previewUrl s =
     (case f of
        None \<Rightarrow> s
      | Some fl \<Rightarrow>
          if \<not> prefix (js ''image/'') (file_type fl)
          then toast_error (Some (js ''Please select a valid image file'')) s
          else if file_size fl > 5 * 1024 * 1024
          then toast_error (Some (js ''Image file size should be less than 5MB'')) s
          else s\<lparr>image' := Some fl,
                 revoked := (if imagePreview s \<noteq> [] then revoked s @ [imagePreview s]
                             else revoked s),
                 created := created s @ [(previewUrl, fl)],
                 imagePreview := previewUrl\<rparr>)"

text \<open>
  The effect on \<open>[imagePreview]\<close> returns a cleanup that revokes the preview of the render it
  was created in. React runs that cleanup after a render in which \<open>imagePreview\<close> differs
  from the previous render, and when the component unmounts.
\<close>

definition preview_cleanup :: "jsstring \<Rightarrow> builder \<Rightarrow> builder" where
  "preview_cleanup p s = (if p \<noteq> [] then s\<lparr>revoked := revoked s @ [p]\<rparr> else s)"

definition rerender :: "builder \<Rightarrow> builder \<Rightarrow> builder" where
  "rerender prev cur =
     (if imagePreview cur \<noteq> imagePreview prev
      then preview_cleanup (imagePreview prev) cur else cur)"

definition unmount :: "builder \<Rightarrow> builder" where
  "unmount s = preview_cleanup (imagePreview s) s"

subsection \<open>Submission\<close>

text \<open>
  The checks of \<open>handleSubmit\<close>, in the order of the source: the message of the first that
  fails, \<open>None\<close> when all pass.
\<close>

definition submit_error :: "builder \<Rightarrow> string option" where
  "submit_error s =
     (if trim (courseTitle s) = [] then Some ''Please enter course title''
      else if image' s = None then Some ''Please select a course thumbnail''
      else if (case editorHtml s of None \<Rightarrow> True | Some h \<Rightarrow> trim h = [])
      then Some ''Please enter course description''
      else if length (chapters s) = 0 then Some ''Please add at least one chapter''
      else if length (filter (\<lambda>c. length (chapterContent c) = 0) (chapters s)) > 0
      then Some ''All chapters must have at least one lecture''
      else None)"

text \<open>
  What the awaited calls do: \<open>getToken()\<close> rejects, \<open>axios.post\<close> rejects, or it resolves with
  \<open>data.success\<close> and \<open>data.message\<close>. A rejection carries \<open>error.response?.data?.message\<close>.
\<close>

datatype network = TokenRejects "jsstring option" | PostRejects "jsstring option"
  | PostResolves bool "jsstring option"

definition build_request :: "builder \<Rightarrow> image_file \<Rightarrow> jsstring \<Rightarrow> request" where
  "build_request s img html =
     \<lparr>sent_courseTitle = trim (courseTitle s), sent_courseDescription = html,
      sent_coursePrice = coursePrice s, sent_discount = discount s,
      sent_courseContent = chapters s, sent_image = img\<rparr>"

text \<open>
  The reset after a success. The assignment \<open>quillRef.current.root.innerHTML = ""\<close> empties
  the root of the editor, which then holds what the editor makes of the empty content.
\<close>

definition reset_form :: "builder \<Rightarrow> builder" where
  "reset_form s =
     s\<lparr>courseTitle := [], coursePrice := NumberValue 0, discount := NumberValue 0,
       image' := None,
       revoked := (if imagePreview s \<noteq> [] then revoked s @ [imagePreview s] else revoked s),
       imagePreview := [], chapters := [],
       editorHtml := (case editorHtml s of None \<Rightarrow> None | Some h \<Rightarrow> Some (quill_html []))\<rparr>"

text \<open>
  \<open>handleSubmit(e)\<close>. No other event is interleaved between the checks and the response: the
  handler is one step of the model. A draft that passes the checks has an image and an
  editor, so the last case does not occur.
\<close>

definition handleSubmit :: "network \<Rightarrow> builder \<Rightarrow> builder" where
  "handleSubmit net s =
     (case submit_error s of
        Some m \<Rightarrow> toast_error (Some (js m)) s
      | None \<Rightarrow>
          (case (image' s, editorHtml s) of
             (Some img, Some html) \<Rightarrow>
               (case net of
                  TokenRejects m \<Rightarrow>
                    toast_error (Some (or_else m (js ''Failed to add course''))) s
                | PostRejects m \<Rightarrow>
                    toast_error (Some (or_else m (js ''Failed to add course'')))
                      (s\<lparr>requests := requests s @ [build_request s img html]\<rparr>)
                | PostResolves success m \<Rightarrow>
                    (let s' = s\<lparr>requests := requests s @ [build_request s img html]\<rparr>
                     in if success then reset_form (toast_success m s')
                        else toast_error m s'))
           | _ \<Rightarrow> s))"

subsection \<open>Events\<close>

text \<open>
  Everything the user and the environment can do to the mounted component. \<open>EditorChange\<close> is
  an edit in the editor, which sets the content of its root.
\<close>

datatype event =
  Chapter chapter_action
  | Lecture lecture_action
  | SaveLecture jsstring
  | EditLecture lecture_details
  | CloseLecture
  | TitleChange jsstring
  | PriceChange jsstring
  | DiscountChange jsstring
  | EditorChange jsstring
  | ImageChange "image_file option" jsstring
  | Submit network

fun handle :: "event \<Rightarrow> builder \<Rightarrow> builder" where
  "handle (Chapter a) s = handleChapter a s"
| "handle (Lecture a) s = handleLecture a s"
| "handle (SaveLecture uid) s = handleSaveLecture uid s"
| "handle (EditLecture d) s = s\<lparr>lectureDetails := d\<rparr>"
| "handle CloseLecture s =
     s\<lparr>showPopup := False, currentChapterId := None, lectureDetails := empty_details\<rparr>"
| "handle (TitleChange t) s = s\<lparr>courseTitle := t\<rparr>"
| "handle (PriceChange t) s = s\<lparr>coursePrice := InputText t\<rparr>"
| "handle (DiscountChange t) s = s\<lparr>discount := InputText t\<rparr>"
| "handle (EditorChange h) s = s\<lparr>editorHtml := Some (quill_html h)\<rparr>"
| "handle (ImageChange f url) s = handleImageChange f url s"
| "handle (Submit net) s = handleSubmit net s"

definition dispatch :: "builder \<Rightarrow> event \<Rightarrow> builder" where
  "dispatch s e = rerender s (handle e s)"

definition run :: "builder \<Rightarrow> event list \<Rightarrow> builder" where
  "run s es = foldl dispatch s es"


text \<open>
  The chapters carry strictly increasing, positive orders in list order; the event that adds
  a chapter.
\<close>

definition increasing :: "course_chapter list \<Rightarrow> bool" where
  "increasing cs =
     (sorted_wrt (<) (map chapterOrder cs) \<and> list_all (\<lambda>c. 1 \<le> chapterOrder c) cs)"

fun is_add :: "event \<Rightarrow> bool" where
  "is_add (Chapter (AddChapter t u)) = True"
| "is_add _ = False"

subsection \<open>The order of the checks in the specification\<close>


subsection \<open>Example drafts\<close>

text \<open>
  A 2 MB PNG, and the draft a user builds with it: a title, a description, the thumbnail, one
  chapter with one lecture. \<open>example_popup\<close> is that draft with the lecture popup opened on the
  chapter and filled in.
\<close>

definition example_file :: image_file where
  "example_file =
     \<lparr>file_name = js ''cover.png'', file_type = js ''image/png'', file_size = 2 * 1024 * 1024\<rparr>"

definition example_draft :: builder where
  "example_draft =
     run initial
       [TitleChange (js ''Algebra''),
        EditorChange (js ''<p>Groups</p>''),
        ImageChange (Some example_file) (js ''blob:1''),
        Chapter (AddChapter (Some (js ''Intro'')) (js ''c1'')),
        Lecture (AddLecture (js ''c1'')),
        EditLecture \<lparr>lectureTitle_in = js ''Sets'', lectureDuration_in = Entered 10,
          lectureUrl_in = js ''https://v/1'', isPreviewFree_in = True\<rparr>,
        SaveLecture (js ''l1'')]"


section \<open>The shared state provider (the two copies of the context file)\<close>

subsection \<open>Numbers and their decimal text\<close>

text \<open>What a helper returns: \<open>undefined\<close>, a number or a string.\<close>

datatype js_result = JUndefined | JNumber real | JString string

text \<open>
  A double is the real number it denotes. \<open>round_double\<close> rounds a number to the nearest
  one with a 53-bit significand, ties to the even significand, as every arithmetic
  operation on doubles does. The exponent range of doubles is not modelled: sums and
  quotients of ratings stay far inside it.
\<close>

definition binade :: "real \<Rightarrow> int" where
  "binade x =
     (if 1 \<le> \<bar>x\<bar> then bitlen \<lfloor>\<bar>x\<bar>\<rfloor> - 1 else - bitlen (\<lceil>1 / \<bar>x\<bar>\<rceil> - 1))"

definition round_half_even :: "real \<Rightarrow> int" where
  "round_half_even x =
     (let f = \<lfloor>x\<rfloor>; r = x - of_int f
      in if r < 1 / 2 then f else if 1 / 2 < r then f + 1 else if even f then f else f + 1)"

definition round_double :: "real \<Rightarrow> real" where
  "round_double x =
     (if x = 0 then 0
      else let u = 2 powi (binade x - 52) in of_int (round_half_even (x / u)) * u)"

text \<open>The decimal digits of a natural number, as \<open>toFixed\<close> and \<open>ToString\<close> write them.\<close>

definition digit_char :: "nat \<Rightarrow> char" where
  "digit_char d = ''0123456789'' ! d"

fun digits :: "nat \<Rightarrow> string" where
  "digits n = (if n < 10 then [digit_char n] else digits (n div 10) @ [digit_char (n mod 10)])"

declare digits.simps [simp del]

text \<open>
  \<open>Number.prototype.toFixed(1)\<close> on a finite number: the sign, then the integer \<open>n\<close> nearest to
  ten times the magnitude (the larger one of two), written with at least two digits and a
  point before the last. From \<open>10 ^ 21\<close> on the result is the exponent notation of
  \<open>ToString\<close>, which is not modelled: \<open>None\<close>.
\<close>

definition point_before_last :: "string \<Rightarrow> string" where
  "point_before_last m =
     (let m = (if length m \<le> 1 then replicate (2 - length m) CHR ''0'' @ m else m);
          k = length m
      in take (k - 1) m @ ''.'' @ drop (k - 1) m)"

definition toFixed1 :: "real \<Rightarrow> string option" where
  "toFixed1 x =
     (if 10 ^ 21 \<le> \<bar>x\<bar> then None
      else Some ((if x < 0 then ''-'' else []) @
             point_before_last (digits (nat \<lfloor>\<bar>x\<bar> * 10 + 1 / 2\<rfloor>))))"

text \<open>The number a decimal text denotes: an optional sign, digits, a point, digits.\<close>

definition digit_value :: "char \<Rightarrow> nat" where
  "digit_value c = of_char c - 48"

definition digits_value :: "string \<Rightarrow> nat" where
  "digits_value cs = foldl (\<lambda>a c. 10 * a + digit_value c) 0 cs"

definition unsigned_value :: "string \<Rightarrow> real" where
  "unsigned_value cs =
     (let a = takeWhile (\<lambda>c. c \<noteq> CHR ''.'') cs;
          b = drop 1 (dropWhile (\<lambda>c. c \<noteq> CHR ''.'') cs)
      in of_nat (digits_value a) + of_nat (digits_value b) / 10 ^ length b)"

definition decimal_value :: "string \<Rightarrow> real" where
  "decimal_value cs =
     (case cs of
        [] \<Rightarrow> 0
      | c # r \<Rightarrow> if c = CHR ''-'' then - unsigned_value r else unsigned_value cs)"

subsection \<open>Fetched courses\<close>

text \<open>
  A course as the backend sends it, with the fields the helpers read. A field the object does
  not have, and a chapter that is \<open>null\<close>, is \<open>None\<close>. A rating is a double.
\<close>

record course_rating =
  userId :: jsstring
  rating :: real

record fetched_chapter =
  fetched_chapterContent :: "lecture list option"

record fetched_course =
  courseRatings :: "course_rating list option"
  courseContent :: "fetched_chapter option list option"

subsection \<open>The helpers\<close>






text \<open>\<open>calculateNoOfLectures(course)\<close>, the same in both copies.\<close>

definition lectures_in :: "fetched_chapter option \<Rightarrow> nat" where
  "lectures_in ch =
     (case ch of
        None \<Rightarrow> 0
      | Some c \<Rightarrow> (case fetched_chapterContent c of None \<Rightarrow> 0 | Some ls \<Rightarrow> length ls))"

definition calculateNoOfLectures :: "fetched_course option \<Rightarrow> js_result" where
  "calculateNoOfLectures course =
     (case course of
        None \<Rightarrow> JUndefined
      | Some c \<Rightarrow>
          (case courseContent c of
             None \<Rightarrow> JUndefined
           | Some chs \<Rightarrow> JNumber (of_nat (foldl (\<lambda>sum ch. sum + lectures_in ch) 0 chs))))"
subsection \<open>Fetching the profile\<close>

text \<open>
  The signed-in user of the authentication provider, with the fields \<open>fetchUserData\<close> reads:
  \<open>user.id\<close>, the \<open>emailAddress\<close> of each entry of \<open>user.emailAddresses\<close> (\<open>None\<close> when the
  array is absent), \<open>user.firstName\<close> and \<open>user.lastName\<close>.
\<close>

record clerk_user =
  user_id :: jsstring
  user_emailAddresses :: "jsstring list option"
  user_firstName :: "jsstring option"
  user_lastName :: "jsstring option"

text \<open>
  The profile \<open>userData\<close> is the user object of the backend, of a type \<open>'u\<close> left open, or the
  object \<open>fetchUserData\<close> builds from the signed-in user.
\<close>

record local_profile =
  clerkId :: jsstring
  email :: "jsstring option"
  firstName :: "jsstring option"
  lastName :: "jsstring option"
  enrolledCourses :: "jsstring list"

datatype 'u user_data = BackendUser 'u | LocalUser local_profile

text \<open>
  The part of the provider's state that \<open>fetchUserData\<close> writes, and the notifications
  shown.
\<close>

record 'u provider =
  userData :: "'u user_data option"
  userDataLoading :: bool
  shown :: "toast list"

text \<open>
  What an awaited call does. A rejection carries \<open>error.response?.status\<close>,
  \<open>error.response?.data?.message\<close> and \<open>error.message\<close>; a response of
  \<open>GET /api/user/data\<close> carries \<open>data.success\<close>, \<open>data.user\<close> and \<open>data.message\<close>.
\<close>

record js_error =
  response_status :: "nat option"
  response_message :: "jsstring option"
  error_message :: "jsstring option"

datatype 'a awaited = Resolves 'a | Rejects js_error

record 'u user_response =
  success :: bool
  response_user :: "'u option"
  response_data_message :: "jsstring option"

definition notify_error :: "jsstring \<Rightarrow> 'u provider \<Rightarrow> 'u provider" where
  "notify_error m s = s\<lparr>shown := shown s @ [ToastError (Some m)]\<rparr>"

definition local_user_data :: "clerk_user \<Rightarrow> local_profile" where
  "local_user_data u =
     \<lparr>clerkId = user_id u,
      email = (case user_emailAddresses u of None \<Rightarrow> None | Some [] \<Rightarrow> None
               | Some (a # _) \<Rightarrow> Some a),
      firstName = user_firstName u, lastName = user_lastName u, enrolledCourses = []\<rparr>"

text \<open>
  \<open>fetchUserData()\<close> of the copy of the provider that also exposes \<open>isSignedIn\<close>: the state
  when the function has returned, from the signed-in user and what \<open>getToken()\<close> and
  \<open>axios.get\<close> do.
\<close>

definition fetchUserData_catch :: "clerk_user \<Rightarrow> js_error \<Rightarrow> 'u provider \<Rightarrow> 'u provider" where
  "fetchUserData_catch u e s =
     (if response_status e = Some 401
      then (notify_error (js ''Authentication failed. Please login again.'') s)
             \<lparr>userData := None\<rparr>
      else if response_status e = Some 404
      then s\<lparr>userData := Some (LocalUser (local_user_data u))\<rparr>
      else notify_error
             (or_else (response_message e)
                (or_else (error_message e) (js ''Failed to load user profile''))) s)"

definition fetchUserData ::
  "clerk_user option \<Rightarrow> jsstring option awaited \<Rightarrow> 'u user_response awaited \<Rightarrow>
     'u provider \<Rightarrow> 'u provider" where
  "fetchUserData user token response s =
     (case user of
        None \<Rightarrow> s\<lparr>userDataLoading := False\<rparr>
      | Some u \<Rightarrow>
          (case token of
             Rejects e \<Rightarrow> (fetchUserData_catch u e s)\<lparr>userDataLoading := False\<rparr>
           | Resolves t \<Rightarrow>
               if t = None \<or> t = Some []
               then (notify_error (js ''Authentication failed. Please login again.'') s)
                      \<lparr>userDataLoading := False\<rparr>
               else
                 (case response of
                    Rejects e \<Rightarrow> (fetchUserData_catch u e s)\<lparr>userDataLoading := False\<rparr>
                  | Resolves r \<Rightarrow>
                      (case response_user r of
                         Some bu \<Rightarrow>
                           if success r
                           then s\<lparr>userData := Some (BackendUser bu), userDataLoading := False\<rparr>
                           else s\<lparr>userData := Some (LocalUser (local_user_data u)),
                                  userDataLoading := False\<rparr>
                       | None \<Rightarrow>
                           s\<lparr>userData := Some (LocalUser (local_user_data u)),
                             userDataLoading := False\<rparr>))))"

text \<open>\<open>fetchUserData()\<close> of the other copy of the provider, which does not expose \<open>isSignedIn\<close>.\<close>

definition fetchUserData_other_catch :: "js_error \<Rightarrow> 'u provider \<Rightarrow> 'u provider" where
  "fetchUserData_other_catch e s =
     (if response_status e = Some 401 then s\<lparr>userData := None\<rparr>
      else notify_error (or_else (response_message e) (js ''Failed to load user profile'')) s)"

definition fetchUserData_other ::
  "clerk_user option \<Rightarrow> jsstring option awaited \<Rightarrow> 'u user_response awaited \<Rightarrow>
     'u provider \<Rightarrow> 'u provider" where
  "fetchUserData_other user token response s =
     (case user of
        None \<Rightarrow> s
      | Some u \<Rightarrow>
          (case token of
             Rejects e \<Rightarrow> (fetchUserData_other_catch e s)\<lparr>userDataLoading := False\<rparr>
           | Resolves t \<Rightarrow>
               if t = None \<or> t = Some []
               then (notify_error (js ''Authentication failed. Please login again.'') s)
                      \<lparr>userDataLoading := False\<rparr>
               else
                 (case response of
                    Rejects e \<Rightarrow> (fetchUserData_other_catch e s)\<lparr>userDataLoading := False\<rparr>
                  | Resolves r \<Rightarrow>
                      if success r
                      then s\<lparr>userData := map_option BackendUser (response_user r),
                             userDataLoading := False\<rparr>
                      else (notify_error
                              (or_else (response_data_message r) (js ''Failed to load user data''))
                              s)\<lparr>userDataLoading := False\<rparr>)))"

text \<open>A signed-in user and the rejection of a request the backend answers with a status.\<close>

definition example_user :: clerk_user where
  "example_user =
     \<lparr>user_id = js ''user_1'', user_emailAddresses = Some [js ''ada@example.org''],
      user_firstName = Some (js ''Ada''), user_lastName = Some (js ''Byron'')\<rparr>"

definition status_error :: "nat \<Rightarrow> js_error" where
  "status_error n =
     \<lparr>response_status = Some n, response_message = None,
      error_message = Some (js ''Request failed'')\<rparr>"

section \<open>Properties of the course builder\<close>

subsection \<open>Lecture numbering\<close>

lemma length_renumber: "length (renumber i ls) = length ls"
  by (induction ls arbitrary: i) simp_all

lemma orders_renumber: "map lectureOrder (renumber i ls) = [Suc i..<Suc i + length ls]"
  by (induction ls arbitrary: i) (simp_all add: upt_rec)

lemma numbered_renumber: "numbered (c\<lparr>chapterContent := renumber 0 ls\<rparr>)"
  by (simp add: numbered_def orders_renumber length_renumber)

lemma numbered_append:
  "numbered c \<Longrightarrow>
     numbered (c\<lparr>chapterContent := chapterContent c @ [new_lecture uid d q c]\<rparr>)"
  by (simp add: numbered_def new_lecture_def)

lemma chapters_toast_error [simp]: "chapters (toast_error m s) = chapters s"
  by (simp add: toast_error_def)

lemma chapters_rerender [simp]: "chapters (rerender s t) = chapters t"
  by (simp add: rerender_def preview_cleanup_def)

lemma handleChapter_numbered:
  "list_all numbered (chapters s) \<Longrightarrow> list_all numbered (chapters (handleChapter a s))"
  by (cases a) (auto simp: list_all_iff numbered_def split: option.splits)

lemma handleLecture_numbered:
  "list_all numbered (chapters s) \<Longrightarrow> list_all numbered (chapters (handleLecture a s))"
  by (cases a) (auto simp: list_all_iff numbered_renumber)

lemma handleSaveLecture_numbered:
  "list_all numbered (chapters s) \<Longrightarrow>
     list_all numbered (chapters (handleSaveLecture uid s))"
  by (auto simp: handleSaveLecture_def list_all_iff numbered_append
      split: option.splits number_input.splits)

lemma handleImageChange_chapters [simp]: "chapters (handleImageChange f u s) = chapters s"
  by (simp add: handleImageChange_def split: option.splits)

lemma handleSubmit_chapters:
  "chapters (handleSubmit net s) = chapters s \<or> chapters (handleSubmit net s) = []"
  by (auto simp: handleSubmit_def reset_form_def toast_error_def toast_success_def Let_def
      split: option.splits network.splits)

lemma handle_numbered:
  "list_all numbered (chapters s) \<Longrightarrow> list_all numbered (chapters (handle e s))"
proof (cases e)
  case (Submit net)
  assume "list_all numbered (chapters s)"
  with handleSubmit_chapters [of net s] Submit show ?thesis by auto
qed (simp_all add: handleChapter_numbered handleLecture_numbered handleSaveLecture_numbered)

lemma run_numbered:
  "list_all numbered (chapters s) \<Longrightarrow> list_all numbered (chapters (run s es))"
  unfolding run_def
  by (induction es arbitrary: s) (simp_all add: dispatch_def handle_numbered)

text \<open>
  C1. Whatever the user does from the empty draft on, and so after every sequence of
  lectures saved to and removed from a chapter, the \<open>lectureOrder\<close> values of the lectures of
  each chapter are 1, 2, ..., N in list order, N being the number of its lectures.
\<close>

theorem lecture_orders_contiguous:
  "c \<in> set (chapters (run initial es)) \<Longrightarrow>
     map lectureOrder (chapterContent c) = [1..<Suc (length (chapterContent c))]"
proof -
  have "list_all numbered (chapters (run initial es))"
    by (rule run_numbered) (simp add: initial_def)
  then show "c \<in> set (chapters (run initial es)) \<Longrightarrow> ?thesis"
    by (simp add: list_all_iff numbered_def)
qed

text \<open>
  Two lectures are saved to a chapter and the first is removed: the survivor, saved with
  order 2, has order 1.
\<close>

theorem lecture_orders_contiguous_witness:
  "chapters (run initial
      [Chapter (AddChapter (Some (js ''Intro'')) (js ''c1'')),
       Lecture (AddLecture (js ''c1'')),
       EditLecture \<lparr>lectureTitle_in = js ''One'', lectureDuration_in = Entered 10,
         lectureUrl_in = js ''u1'', isPreviewFree_in = False\<rparr>,
       SaveLecture (js ''l1''),
       Lecture (AddLecture (js ''c1'')),
       EditLecture \<lparr>lectureTitle_in = js ''Two'', lectureDuration_in = Entered 5,
         lectureUrl_in = js ''u2'', isPreviewFree_in = True\<rparr>,
       SaveLecture (js ''l2''),
       Lecture (RemoveLecture (js ''c1'') 0)]) =
     [\<lparr>chapterId = js ''c1'', chapterTitle = js ''Intro'',
       chapterContent =
         [\<lparr>lectureId = js ''l2'', lectureTitle = js ''Two'', lectureDuration = 5,
           lectureUrl = js ''u2'', isPreviewFree = True, lectureOrder = 1\<rparr>],
       collapsed = False, chapterOrder = 1\<rparr>]
   \<and> map lectureOrder
        [\<lparr>lectureId = js ''l2'', lectureTitle = js ''Two'', lectureDuration = 5,
          lectureUrl = js ''u2'', isPreviewFree = True, lectureOrder = 1\<rparr>] = [1..<Suc 1]"
  (is "chapters (run initial ?es) = [?c] \<and> _")
proof -
  have run: "chapters (run initial ?es) = [?c]"
    by (simp add: run_def dispatch_def rerender_def initial_def handleSaveLecture_def
        new_lecture_def next_chapter_order_def splice1_def empty_details_def js_def trim_def
        is_white_space_def)
  then have "?c \<in> set (chapters (run initial ?es))"
    by simp
  from lecture_orders_contiguous [OF this] run show ?thesis
    by simp
qed

subsection \<open>Chapter numbering\<close>

lemma increasing_last:
  "sorted_wrt (<) (map chapterOrder cs) \<Longrightarrow> c \<in> set cs \<Longrightarrow>
     chapterOrder c \<le> chapterOrder (last cs)"
proof (induction cs rule: rev_induct)
  case Nil
  then show ?case by simp
next
  case (snoc x xs)
  then show ?case by (auto simp: sorted_wrt_append intro: less_imp_le)
qed

lemma increasing_add:
  assumes "increasing cs"
  shows "increasing (cs @ [\<lparr>chapterId = uid, chapterTitle = t, chapterContent = [],
           collapsed = False, chapterOrder = next_chapter_order cs\<rparr>])"
  using assms increasing_last [of cs]
  by (auto simp: increasing_def sorted_wrt_append next_chapter_order_def less_Suc_eq_le)

lemma increasing_filter: "increasing cs \<Longrightarrow> increasing (filter P cs)"
  by (induction cs) (auto simp: increasing_def)

lemma increasing_map:
  "(\<And>c. chapterOrder (f c) = chapterOrder c) \<Longrightarrow> increasing cs \<Longrightarrow> increasing (map f cs)"
  by (simp add: increasing_def list_all_iff comp_def)

lemma handleChapter_increasing:
  "increasing (chapters s) \<Longrightarrow> increasing (chapters (handleChapter a s))"
  by (cases a) (auto simp: increasing_add increasing_filter increasing_map split: option.splits)

lemma handleLecture_increasing:
  "increasing (chapters s) \<Longrightarrow> increasing (chapters (handleLecture a s))"
  by (cases a) (auto simp: increasing_map)

lemma handleSaveLecture_increasing:
  "increasing (chapters s) \<Longrightarrow> increasing (chapters (handleSaveLecture uid s))"
  by (auto simp: handleSaveLecture_def increasing_map split: option.splits number_input.splits)

lemma handle_increasing:
  "increasing (chapters s) \<Longrightarrow> increasing (chapters (handle e s))"
proof (cases e)
  case (Submit net)
  assume "increasing (chapters s)"
  with handleSubmit_chapters [of net s] Submit show ?thesis by (auto simp: increasing_def)
qed (simp_all add: handleChapter_increasing handleLecture_increasing
    handleSaveLecture_increasing)

lemma run_increasing:
  "increasing (chapters s) \<Longrightarrow> increasing (chapters (run s es))"
  unfolding run_def
  by (induction es arbitrary: s) (simp_all add: dispatch_def handle_increasing)

lemma last_numbered:
  assumes "map chapterOrder cs = [1..<Suc (length cs)]" and "cs \<noteq> []"
  shows "chapterOrder (last cs) = length cs"
proof -
  have "chapterOrder (last cs) = last (map chapterOrder cs)"
    using assms(2) by (simp add: last_map)
  also have "\<dots> = last [1..<Suc (length cs)]"
    by (simp only: assms(1))
  also have "\<dots> = length cs"
    using assms(2) by (simp add: Suc_le_eq)
  finally show ?thesis .
qed

lemma add_numbers:
  assumes "map chapterOrder (chapters s) = [1..<Suc (length (chapters s))]"
  shows "map chapterOrder (chapters (handleChapter (AddChapter t u) s)) =
     [1..<Suc (length (chapters (handleChapter (AddChapter t u) s)))]"
proof (cases "chapters s = []")
  case True
  then show ?thesis
    by (simp add: next_chapter_order_def split: option.splits)
next
  case False
  with last_numbered [OF assms] assms show ?thesis
    by (simp add: next_chapter_order_def Suc_le_eq split: option.splits)
qed

lemma adds_number:
  "list_all is_add es \<Longrightarrow> map chapterOrder (chapters s) = [1..<Suc (length (chapters s))] \<Longrightarrow>
     map chapterOrder (chapters (run s es)) = [1..<Suc (length (chapters (run s es)))]"
  unfolding run_def
proof (induction es arbitrary: s)
  case Nil
  then show ?case by simp
next
  case (Cons e es)
  from Cons.prems(1) obtain t u where e: "e = Chapter (AddChapter t u)"
    by (cases e rule: is_add.cases) auto
  have "map chapterOrder (chapters (dispatch s e)) =
      [1..<Suc (length (chapters (dispatch s e)))]"
    unfolding e dispatch_def using add_numbers [OF Cons.prems(2)] by simp
  with Cons.IH [of "dispatch s e"] Cons.prems(1) show ?case by simp
qed

text \<open>
  C3, as the claim states it, fails: chapters A and B are added and A is removed; B keeps the
  order 2 it was given, and the orders of the one remaining chapter are not 1..1.
\<close>

theorem chapter_orders_gap_counterexample:
  "map chapterOrder (chapters (run initial
      [Chapter (AddChapter (Some (js ''A'')) (js ''c1'')),
       Chapter (AddChapter (Some (js ''B'')) (js ''c2'')),
       Chapter (RemoveChapter (js ''c1''))])) \<noteq>
   [1..<Suc (length (chapters (run initial
      [Chapter (AddChapter (Some (js ''A'')) (js ''c1'')),
       Chapter (AddChapter (Some (js ''B'')) (js ''c2'')),
       Chapter (RemoveChapter (js ''c1''))])))]"
  by (simp add: run_def dispatch_def rerender_def initial_def next_chapter_order_def js_def)

text \<open>
  C3, amended. After a sequence of chapter additions alone the \<open>chapterOrder\<close> values are
  1, 2, ..., N in list order. Removing a chapter deletes the chapters with that identifier
  and leaves the order of every other chapter as it was: nothing is renumbered.
\<close>

theorem chapter_orders_added_contiguous_removed_kept:
  "(list_all is_add es \<longrightarrow>
      map chapterOrder (chapters (run initial es)) =
        [1..<Suc (length (chapters (run initial es)))])
   \<and> map chapterOrder (chapters (dispatch s (Chapter (RemoveChapter cid)))) =
       map chapterOrder (filter (\<lambda>c. chapterId c \<noteq> cid) (chapters s))"
  using adds_number [of es initial] by (simp add: dispatch_def initial_def)

theorem chapter_orders_added_contiguous_removed_kept_witness:
  "list_all is_add
     [Chapter (AddChapter (Some (js ''A'')) (js ''c1'')),
      Chapter (AddChapter (Some (js ''B'')) (js ''c2''))]
   \<and> map chapterOrder (chapters (run initial
        [Chapter (AddChapter (Some (js ''A'')) (js ''c1'')),
         Chapter (AddChapter (Some (js ''B'')) (js ''c2''))])) = [1, 2]
   \<and> map chapterOrder (chapters (dispatch
        (run initial
          [Chapter (AddChapter (Some (js ''A'')) (js ''c1'')),
           Chapter (AddChapter (Some (js ''B'')) (js ''c2''))])
        (Chapter (RemoveChapter (js ''c1''))))) = [2]"
  (is "list_all is_add ?es \<and> _ \<and> _")
proof -
  have adds: "list_all is_add ?es"
    by simp
  have len: "length (chapters (run initial ?es)) = 2"
    by (simp add: run_def dispatch_def initial_def js_def)
  have kept: "map chapterOrder
      (filter (\<lambda>c. chapterId c \<noteq> js ''c1'') (chapters (run initial ?es))) = [2]"
    by (simp add: run_def dispatch_def initial_def next_chapter_order_def js_def)
  from chapter_orders_added_contiguous_removed_kept
    [of ?es "run initial ?es" "js ''c1''"] adds len kept
  show ?thesis
    by (simp add: upt_rec)
qed

text \<open>
  C10. In every state the draft can reach, the \<open>chapterOrder\<close> values are strictly
  increasing in list order. A chapter is appended with the order of the last chapter plus
  one, or 1 when there is none; removing a chapter keeps the orders of the others, in their
  sequence; folding a chapter, the lecture operations and saving a lecture leave the orders
  as they are.
\<close>

theorem chapter_orders_increasing:
  "sorted_wrt (<) (map chapterOrder (chapters (run initial es)))
   \<and> (t \<noteq> [] \<longrightarrow>
        map chapterOrder (chapters (dispatch s (Chapter (AddChapter (Some t) uid)))) =
          map chapterOrder (chapters s) @
            [if chapters s = [] then 1 else chapterOrder (last (chapters s)) + 1])
   \<and> subseq (map chapterOrder (chapters (dispatch s (Chapter (RemoveChapter cid)))))
        (map chapterOrder (chapters s))
   \<and> map chapterOrder (chapters (dispatch s (Chapter (ToggleChapter cid)))) =
        map chapterOrder (chapters s)
   \<and> map chapterOrder (chapters (dispatch s (Lecture a))) = map chapterOrder (chapters s)
   \<and> map chapterOrder (chapters (dispatch s (SaveLecture uid))) =
        map chapterOrder (chapters s)"
proof -
  have "increasing (chapters (run initial es))"
    by (rule run_increasing) (simp add: initial_def increasing_def)
  then have inc: "sorted_wrt (<) (map chapterOrder (chapters (run initial es)))"
    by (simp add: increasing_def)
  have add: "t \<noteq> [] \<longrightarrow>
      map chapterOrder (chapters (dispatch s (Chapter (AddChapter (Some t) uid)))) =
        map chapterOrder (chapters s) @
          [if chapters s = [] then 1 else chapterOrder (last (chapters s)) + 1]"
    by (simp add: dispatch_def next_chapter_order_def)
  have remove: "subseq (map chapterOrder (chapters (dispatch s (Chapter (RemoveChapter cid)))))
      (map chapterOrder (chapters s))"
    by (simp add: dispatch_def subseq_map)
  have toggle: "map chapterOrder (chapters (dispatch s (Chapter (ToggleChapter cid)))) =
      map chapterOrder (chapters s)"
    by (simp add: dispatch_def comp_def if_distrib [of chapterOrder] cong: if_cong)
  have lect: "map chapterOrder (chapters (dispatch s (Lecture a))) =
      map chapterOrder (chapters s)"
    by (cases a) (simp_all add: dispatch_def comp_def if_distrib [of chapterOrder] cong: if_cong)
  have save: "map chapterOrder (chapters (dispatch s (SaveLecture uid))) =
      map chapterOrder (chapters s)"
    by (simp add: dispatch_def handleSaveLecture_def comp_def if_distrib [of chapterOrder]
        split: option.splits number_input.splits cong: if_cong)
  from inc add remove toggle lect save show ?thesis
    by blast
qed

text \<open>Three chapters are added, the second is removed and a fourth is added: 1, 3, 4.\<close>

theorem chapter_orders_increasing_witness:
  "js ''D'' \<noteq> []
   \<and> map chapterOrder (chapters (run initial
        [Chapter (AddChapter (Some (js ''A'')) (js ''c1'')),
         Chapter (AddChapter (Some (js ''B'')) (js ''c2'')),
         Chapter (AddChapter (Some (js ''C'')) (js ''c3'')),
         Chapter (RemoveChapter (js ''c2'')),
         Chapter (AddChapter (Some (js ''D'')) (js ''c4''))])) = [1, 3, 4]
   \<and> sorted_wrt (<) [1, 3, 4 :: nat]
   \<and> map chapterOrder (chapters (dispatch
        (run initial
          [Chapter (AddChapter (Some (js ''A'')) (js ''c1'')),
           Chapter (AddChapter (Some (js ''B'')) (js ''c2'')),
           Chapter (AddChapter (Some (js ''C'')) (js ''c3'')),
           Chapter (RemoveChapter (js ''c2''))])
        (Chapter (AddChapter (Some (js ''D'')) (js ''c4''))))) = [1, 3] @ [3 + 1]"
  (is "_ \<and> map chapterOrder (chapters (run initial ?es)) = _ \<and> _ \<and>
       map chapterOrder (chapters (dispatch (run initial ?es') _)) = _")
proof -
  have title: "js ''D'' \<noteq> []"
    by (simp add: js_def)
  have orders: "map chapterOrder (chapters (run initial ?es)) = [1, 3, 4]"
    by (simp add: run_def dispatch_def rerender_def initial_def next_chapter_order_def js_def)
  have before: "map chapterOrder (chapters (run initial ?es')) = [1, 3]"
    by (simp add: run_def dispatch_def rerender_def initial_def next_chapter_order_def js_def)
  have last: "chapters (run initial ?es') \<noteq> [] \<and>
      chapterOrder (last (chapters (run initial ?es'))) = 3"
    by (simp add: run_def dispatch_def rerender_def initial_def next_chapter_order_def js_def)
  from chapter_orders_increasing [of ?es "js ''D''" "run initial ?es'" "js ''c4''"]
    title orders before last
  show ?thesis
    by simp
qed

subsection \<open>The example drafts, evaluated\<close>

lemma example_draft_eq:
  "example_draft =
     \<lparr>courseTitle = js ''Algebra'', coursePrice = NumberValue 0, discount = NumberValue 0,
      image' = Some example_file, imagePreview = js ''blob:1'',
      chapters =
        [\<lparr>chapterId = js ''c1'', chapterTitle = js ''Intro'',
          chapterContent =
            [\<lparr>lectureId = js ''l1'', lectureTitle = js ''Sets'', lectureDuration = 10,
              lectureUrl = js ''https://v/1'', isPreviewFree = True, lectureOrder = 1\<rparr>],
          collapsed = False, chapterOrder = 1\<rparr>],
      showPopup = False, currentChapterId = None, lectureDetails = empty_details,
      editorHtml = Some (js ''<p>Groups</p>''), toasts = [],
      created = [(js ''blob:1'', example_file)], revoked = [], requests = []\<rparr>"
  by (simp add: example_draft_def run_def dispatch_def rerender_def preview_cleanup_def
      initial_def js_def handleImageChange_def example_file_def toast_error_def
      handleSaveLecture_def new_lecture_def next_chapter_order_def empty_details_def trim_def
      is_white_space_def quill_html_def quill_empty_def)


lemmas example_eval = example_draft_eq example_file_def js_def trim_def is_white_space_def

subsection \<open>Submission\<close>


lemma submit_passes:
  assumes "submit_error s = None"
  shows "\<exists>img html. image' s = Some img \<and> editorHtml s = Some html"
  using assms by (auto simp: submit_error_def split: if_splits option.splits)


lemma editorHtml_toast_error [simp]: "editorHtml (toast_error m s) = editorHtml s"
  by (simp add: toast_error_def)

lemma editorHtml_rerender [simp]: "editorHtml (rerender s t) = editorHtml t"
  by (simp add: rerender_def preview_cleanup_def)






text \<open>
  C4. When the checks pass and the request fails, the whole draft is as it was: the state
  after the submission is the state before it with one error notification added, and the
  request added to those posted when the credential was obtained. A response with
  \<open>success\<close> false is reported with its message; a rejected request or credential with the
  message of the response, or \<open>Failed to add course\<close> when there is none.
\<close>

theorem submit_failure_keeps_draft:
  assumes "submit_error s = None"
  shows "\<exists>r. dispatch s (Submit (PostResolves False m)) =
           s\<lparr>toasts := toasts s @ [ToastError m], requests := requests s @ [r]\<rparr>
         \<and> dispatch s (Submit (PostRejects m)) =
           s\<lparr>toasts := toasts s @
               [ToastError (Some (or_else m (js ''Failed to add course'')))],
             requests := requests s @ [r]\<rparr>
         \<and> dispatch s (Submit (TokenRejects m)) =
           s\<lparr>toasts := toasts s @
               [ToastError (Some (or_else m (js ''Failed to add course'')))]\<rparr>"
proof -
  from submit_passes [OF assms] obtain img html
    where "image' s = Some img" and "editorHtml s = Some html" by blast
  with assms show ?thesis
    by (intro exI [of _ "build_request s img html"])
      (simp add: dispatch_def handleSubmit_def toast_error_def rerender_def)
qed

text \<open>
  The example draft passes the checks; the server answers that the course exists, and then
  the request fails without a response.
\<close>

theorem submit_failure_keeps_draft_witness:
  "submit_error example_draft = None
   \<and> toasts (dispatch example_draft
        (Submit (PostResolves False (Some (js ''Course exists''))))) =
       [ToastError (Some (js ''Course exists''))]
   \<and> (dispatch example_draft
        (Submit (PostResolves False (Some (js ''Course exists'')))))
        \<lparr>toasts := [], requests := []\<rparr> = example_draft
   \<and> toasts (dispatch example_draft (Submit (PostRejects None))) =
       [ToastError (Some (js ''Failed to add course''))]
   \<and> (dispatch example_draft (Submit (PostRejects None)))
        \<lparr>toasts := [], requests := []\<rparr> = example_draft"
proof -
  have pass: "submit_error example_draft = None"
    by (simp add: submit_error_def example_eval)
  have start: "toasts example_draft = [] \<and> requests example_draft = []"
    by (simp add: example_draft_eq)
  from submit_failure_keeps_draft [OF pass, of "Some (js ''Course exists'')"]
  obtain r where
    "dispatch example_draft (Submit (PostResolves False (Some (js ''Course exists'')))) =
       example_draft\<lparr>toasts := toasts example_draft @
           [ToastError (Some (js ''Course exists''))],
         requests := requests example_draft @ [r]\<rparr>"
    by blast
  with start have answered:
    "toasts (dispatch example_draft
        (Submit (PostResolves False (Some (js ''Course exists''))))) =
       [ToastError (Some (js ''Course exists''))]
     \<and> (dispatch example_draft
        (Submit (PostResolves False (Some (js ''Course exists'')))))
        \<lparr>toasts := [], requests := []\<rparr> = example_draft"
    by simp
  from submit_failure_keeps_draft [OF pass, of None]
  obtain r' where
    "dispatch example_draft (Submit (PostRejects None)) =
       example_draft\<lparr>toasts := toasts example_draft @
           [ToastError (Some (or_else None (js ''Failed to add course'')))],
         requests := requests example_draft @ [r']\<rparr>"
    by blast
  with start have rejected:
    "toasts (dispatch example_draft (Submit (PostRejects None))) =
       [ToastError (Some (js ''Failed to add course''))]
     \<and> (dispatch example_draft (Submit (PostRejects None)))
        \<lparr>toasts := [], requests := []\<rparr> = example_draft"
    by (simp add: or_else_def)
  from pass answered rejected show ?thesis
    by blast
qed

subsection \<open>Saving a lecture\<close>

text \<open>
  Whenever the popup is shown it is bound to a chapter: the button that saves a lecture
  exists only in states in which \<open>currentChapterId\<close> is set.
\<close>

lemma handle_popup_bound:
  assumes "showPopup s \<longrightarrow> currentChapterId s \<noteq> None"
  shows "showPopup (handle e s) \<longrightarrow> currentChapterId (handle e s) \<noteq> None"
proof (cases e)
  case (Chapter a)
  with assms show ?thesis by (cases a) (auto split: option.splits)
next
  case (Lecture a)
  with assms show ?thesis by (cases a) auto
next
  case (SaveLecture uid)
  with assms show ?thesis
    by (auto simp: handleSaveLecture_def toast_error_def split: option.splits number_input.splits)
next
  case (ImageChange f url)
  with assms show ?thesis
    by (auto simp: handleImageChange_def toast_error_def split: option.splits)
next
  case (Submit net)
  with assms show ?thesis
    by (auto simp: handleSubmit_def toast_error_def toast_success_def reset_form_def Let_def
        split: option.splits network.splits)
qed (use assms in auto)

lemma popup_bound:
  "showPopup (run initial es) \<Longrightarrow> \<exists>cid. currentChapterId (run initial es) = Some cid"
proof -
  have "showPopup (run s es) \<longrightarrow> currentChapterId (run s es) \<noteq> None"
    if "showPopup s \<longrightarrow> currentChapterId s \<noteq> None" for s
    using that unfolding run_def
  proof (induction es arbitrary: s)
    case Nil
    then show ?case by simp
  next
    case (Cons e es)
    from handle_popup_bound [OF Cons.prems, of e]
    have "showPopup (dispatch s e) \<longrightarrow> currentChapterId (dispatch s e) \<noteq> None"
      by (simp add: dispatch_def rerender_def preview_cleanup_def)
    from Cons.IH [OF this] show ?case by simp
  qed
  from this [of initial] show "showPopup (run initial es) \<Longrightarrow> ?thesis"
    by (auto simp: initial_def)
qed



subsection \<open>The thumbnail\<close>

lemma image_rejected_type:
  "\<not> prefix (js ''image/'') (file_type f) \<Longrightarrow>
     dispatch s (ImageChange (Some f) url) =
       s\<lparr>toasts := toasts s @ [ToastError (Some (js ''Please select a valid image file''))]\<rparr>"
  by (simp add: dispatch_def rerender_def handleImageChange_def toast_error_def)

lemma image_rejected_size:
  "prefix (js ''image/'') (file_type f) \<Longrightarrow> 5 * 1024 * 1024 < file_size f \<Longrightarrow>
     dispatch s (ImageChange (Some f) url) =
       s\<lparr>toasts := toasts s @
         [ToastError (Some (js ''Image file size should be less than 5MB''))]\<rparr>"
  by (simp add: dispatch_def rerender_def handleImageChange_def toast_error_def)

lemma image_handler:
  "prefix (js ''image/'') (file_type f) \<Longrightarrow> file_size f \<le> 5 * 1024 * 1024 \<Longrightarrow>
     handleImageChange (Some f) url s =
       s\<lparr>image' := Some f, imagePreview := url, created := created s @ [(url, f)],
         revoked := revoked s @ (if imagePreview s = [] then [] else [imagePreview s])\<rparr>"
  by (simp add: handleImageChange_def)

lemma image_accepted:
  "prefix (js ''image/'') (file_type f) \<Longrightarrow> file_size f \<le> 5 * 1024 * 1024 \<Longrightarrow>
     url \<noteq> imagePreview s \<Longrightarrow>
     dispatch s (ImageChange (Some f) url) =
       s\<lparr>image' := Some f, imagePreview := url, created := created s @ [(url, f)],
         revoked := revoked s @
           (if imagePreview s = [] then [] else [imagePreview s, imagePreview s])\<rparr>"
  by (simp add: dispatch_def rerender_def handleImageChange_def preview_cleanup_def)

text \<open>
  C6, as the claim states it, fails: a first thumbnail gets the preview \<open>blob:1\<close>, a second
  valid file replaces it, and \<open>blob:1\<close> is revoked twice, by the handler and by the cleanup
  of the effect on the preview.
\<close>

theorem thumbnail_released_twice_counterexample:
  "revoked (run initial
      [ImageChange (Some example_file) (js ''blob:1''),
       ImageChange (Some example_file) (js ''blob:2'')]) = [js ''blob:1'', js ''blob:1'']
   \<and> count_list (revoked (run initial
        [ImageChange (Some example_file) (js ''blob:1''),
         ImageChange (Some example_file) (js ''blob:2'')])) (js ''blob:1'') \<noteq> 1"
  by (simp add: run_def dispatch_def rerender_def preview_cleanup_def handleImageChange_def
      initial_def example_file_def js_def)

text \<open>
  C6, amended. A file whose type does not start with \<open>image/\<close>, or that is larger than
  5 * 1024 * 1024 bytes, is rejected with a notification, and the stored image and the
  preview stay as they were. A valid file is stored and a preview is created for it; the
  handler revokes the previous preview once, if there was one, and the cleanup of the effect
  on the preview, which runs because the preview has changed, revokes it a second time.
\<close>

theorem thumbnail_validated:
  "(\<not> prefix (js ''image/'') (file_type f) \<longrightarrow>
      dispatch s (ImageChange (Some f) url) =
        s\<lparr>toasts := toasts s @ [ToastError (Some (js ''Please select a valid image file''))]\<rparr>)
   \<and> (prefix (js ''image/'') (file_type f) \<and> 5 * 1024 * 1024 < file_size f \<longrightarrow>
      dispatch s (ImageChange (Some f) url) =
        s\<lparr>toasts := toasts s @
          [ToastError (Some (js ''Image file size should be less than 5MB''))]\<rparr>)
   \<and> (prefix (js ''image/'') (file_type f) \<and> file_size f \<le> 5 * 1024 * 1024 \<longrightarrow>
      handleImageChange (Some f) url s =
        s\<lparr>image' := Some f, imagePreview := url, created := created s @ [(url, f)],
          revoked := revoked s @ (if imagePreview s = [] then [] else [imagePreview s])\<rparr>)
   \<and> (prefix (js ''image/'') (file_type f) \<and> file_size f \<le> 5 * 1024 * 1024 \<and>
       url \<noteq> imagePreview s \<longrightarrow>
      dispatch s (ImageChange (Some f) url) =
        s\<lparr>image' := Some f, imagePreview := url, created := created s @ [(url, f)],
          revoked := revoked s @
            (if imagePreview s = [] then [] else [imagePreview s, imagePreview s])\<rparr>)"
  using image_rejected_type [of f s url] image_rejected_size [of f s url]
    image_handler [of f url s] image_accepted [of f url s]
  by simp

text \<open>
  The example draft, whose preview is \<open>blob:1\<close>, is given a text file, a 6 MB PNG, and the
  2 MB PNG again.
\<close>

theorem thumbnail_validated_witness:
  "dispatch example_draft
      (ImageChange (Some \<lparr>file_name = js ''a.txt'', file_type = js ''text/plain'',
         file_size = 10\<rparr>) (js ''blob:2'')) =
     example_draft\<lparr>toasts := [ToastError (Some (js ''Please select a valid image file''))]\<rparr>
   \<and> dispatch example_draft
      (ImageChange (Some \<lparr>file_name = js ''b.png'', file_type = js ''image/png'',
         file_size = 6 * 1024 * 1024\<rparr>) (js ''blob:2'')) =
     example_draft
       \<lparr>toasts := [ToastError (Some (js ''Image file size should be less than 5MB''))]\<rparr>
   \<and> handleImageChange (Some example_file) (js ''blob:2'') example_draft =
     example_draft\<lparr>imagePreview := js ''blob:2'',
       created := [(js ''blob:1'', example_file), (js ''blob:2'', example_file)],
       revoked := [js ''blob:1'']\<rparr>
   \<and> dispatch example_draft (ImageChange (Some example_file) (js ''blob:2'')) =
     example_draft\<lparr>imagePreview := js ''blob:2'',
       created := [(js ''blob:1'', example_file), (js ''blob:2'', example_file)],
       revoked := [js ''blob:1'', js ''blob:1'']\<rparr>"
  (is "dispatch _ (ImageChange (Some ?txt) ?url) = _ \<and>
       dispatch _ (ImageChange (Some ?big) _) = _ \<and> _ \<and> _")
proof -
  have c1: "dispatch example_draft (ImageChange (Some ?txt) ?url) =
      example_draft\<lparr>toasts := [ToastError (Some (js ''Please select a valid image file''))]\<rparr>"
    using thumbnail_validated [of ?txt example_draft ?url]
    by (simp add: example_eval)
  have c2: "dispatch example_draft (ImageChange (Some ?big) ?url) =
      example_draft
        \<lparr>toasts := [ToastError (Some (js ''Image file size should be less than 5MB''))]\<rparr>"
    using thumbnail_validated [of ?big example_draft ?url]
    by (simp add: example_eval)
  have c3: "handleImageChange (Some example_file) ?url example_draft =
      example_draft\<lparr>imagePreview := js ''blob:2'',
        created := [(js ''blob:1'', example_file), (js ''blob:2'', example_file)],
        revoked := [js ''blob:1'']\<rparr>
    \<and> dispatch example_draft (ImageChange (Some example_file) ?url) =
      example_draft\<lparr>imagePreview := js ''blob:2'',
        created := [(js ''blob:1'', example_file), (js ''blob:2'', example_file)],
        revoked := [js ''blob:1'', js ''blob:1'']\<rparr>"
    using thumbnail_validated [of example_file example_draft ?url]
    by (simp add: example_eval)
  from c1 c2 c3 show ?thesis
    by blast
qed

lemma unmount_revokes_preview:
  "revoked (unmount s) = revoked s @ (if imagePreview s = [] then [] else [imagePreview s])"
  by (simp add: unmount_def preview_cleanup_def)

section \<open>Properties of the helpers\<close>

subsection \<open>Decimal text\<close>

lemma digit_cases:
  "d < 10 \<Longrightarrow> d = 0 \<or> d = 1 \<or> d = 2 \<or> d = 3 \<or> d = 4 \<or> d = 5 \<or> d = 6 \<or> d = 7 \<or> d = 8 \<or> d = (9::nat)"
  by arith

lemma digit_value_digit_char: "d < 10 \<Longrightarrow> digit_value (digit_char d) = d"
  using digit_cases [of d] by (auto simp: digit_value_def digit_char_def)

lemma digit_char_no_point: "d < 10 \<Longrightarrow> digit_char d \<noteq> CHR ''.''"
  using digit_cases [of d] by (auto simp: digit_char_def)

lemma digit_char_no_sign: "d < 10 \<Longrightarrow> digit_char d \<noteq> CHR ''-''"
  using digit_cases [of d] by (auto simp: digit_char_def)

lemma digits_value_snoc: "digits_value (cs @ [c]) = 10 * digits_value cs + digit_value c"
  by (simp add: digits_value_def)

lemma digits_value_zeros: "digits_value (replicate k CHR ''0'' @ cs) = digits_value cs"
proof -
  have "foldl (\<lambda>a c. 10 * a + digit_value c) 0 (replicate k CHR ''0'') = 0"
    by (induction k) (simp_all add: digit_value_def)
  then show ?thesis
    by (simp add: digits_value_def)
qed

lemma digits_value_digits: "digits_value (digits n) = n"
proof (induction n rule: digits.induct)
  case (1 n)
  show ?case
  proof (cases "n < 10")
    case True
    then show ?thesis
      by (simp add: digits.simps [of n] digits_value_def digit_value_digit_char)
  next
    case False
    with "1" have "digits_value (digits (n div 10)) = n div 10"
      by simp
    with False show ?thesis
      by (simp add: digits.simps [of n] digits_value_snoc digit_value_digit_char)
  qed
qed

lemma digits_no_point: "CHR ''.'' \<notin> set (digits n)"
proof (induction n rule: digits.induct)
  case (1 n)
  then show ?case
    using digit_char_no_point [of n] digit_char_no_point [of "n mod 10"]
    by (cases "n < 10") (auto simp: digits.simps [of n])
qed

lemma digits_no_sign: "CHR ''-'' \<notin> set (digits n)"
proof (induction n rule: digits.induct)
  case (1 n)
  then show ?case
    using digit_char_no_sign [of n] digit_char_no_sign [of "n mod 10"]
    by (cases "n < 10") (auto simp: digits.simps [of n])
qed

lemma digits_not_empty: "digits n \<noteq> []"
  by (simp add: digits.simps [of n])

lemma takeWhile_until: "x \<notin> set a \<Longrightarrow> takeWhile (\<lambda>c. c \<noteq> x) (a @ x # r) = a"
  by (induction a) auto

lemma dropWhile_until: "x \<notin> set a \<Longrightarrow> dropWhile (\<lambda>c. c \<noteq> x) (a @ x # r) = x # r"
  by (induction a) auto

lemma take_drop_last:
  "m \<noteq> [] \<Longrightarrow> take (length m - Suc 0) m = butlast m \<and> drop (length m - Suc 0) m = [last m]"
  by (cases m rule: rev_cases) simp_all

lemma unsigned_value_point:
  assumes "CHR ''.'' \<notin> set a"
  shows "unsigned_value (a @ ''.'' @ [c]) =
     of_nat (digits_value a) + of_nat (digit_value c) / 10"
proof -
  have "takeWhile (\<lambda>c. c \<noteq> CHR ''.'') (a @ ''.'' @ [c]) = a"
    using assms by (simp add: takeWhile_until)
  moreover have "dropWhile (\<lambda>c. c \<noteq> CHR ''.'') (a @ ''.'' @ [c]) = ''.'' @ [c]"
    using assms by (simp add: dropWhile_until)
  ultimately show ?thesis
    by (simp add: unsigned_value_def digits_value_def)
qed

text \<open>A point before the last digit divides the number written by ten.\<close>

lemma point_before_last_split:
  assumes "m \<noteq> []"
  shows "\<exists>a c. point_before_last m = a @ ''.'' @ [c] \<and> set (a @ [c]) \<subseteq> insert CHR ''0'' (set m)
     \<and> digits_value (a @ [c]) = digits_value m"
proof (cases "length m \<le> 1")
  case True
  with assms obtain c where m: "m = [c]"
    by (cases m) auto
  have "point_before_last m = ''0'' @ ''.'' @ [c]"
    by (simp add: point_before_last_def m)
  moreover have "digits_value (''0'' @ [c]) = digits_value m"
    using digits_value_zeros [of 1 "[c]"] by (simp add: m)
  ultimately show ?thesis
    by (intro exI [of _ "''0''"] exI [of _ c]) (simp add: m)
next
  case False
  then have "point_before_last m = butlast m @ ''.'' @ [last m]"
    using assms by (simp add: point_before_last_def Let_def take_drop_last)
  moreover have "butlast m @ [last m] = m"
    using assms by simp
  ultimately show ?thesis
    by (intro exI [of _ "butlast m"] exI [of _ "last m"]) auto
qed

lemma unsigned_value_point_before_last:
  assumes "m \<noteq> []" and "CHR ''.'' \<notin> set m"
  shows "unsigned_value (point_before_last m) = of_nat (digits_value m) / 10"
proof -
  from point_before_last_split [OF assms(1)] obtain a c
    where split: "point_before_last m = a @ ''.'' @ [c]"
      and chars: "set (a @ [c]) \<subseteq> insert CHR ''0'' (set m)"
      and val: "digits_value (a @ [c]) = digits_value m"
    by blast
  from chars assms(2) have "CHR ''.'' \<notin> set a"
    by auto
  then have "unsigned_value (point_before_last m) =
      of_nat (digits_value a) + of_nat (digit_value c) / 10"
    unfolding split by (rule unsigned_value_point)
  also have "\<dots> = of_nat (digits_value (a @ [c])) / 10"
    by (simp add: digits_value_snoc)
  finally show ?thesis
    by (simp add: val)
qed

lemma point_before_last_no_sign:
  assumes "m \<noteq> []" and "CHR ''-'' \<notin> set m"
  shows "\<exists>c r. point_before_last m = c # r \<and> c \<noteq> CHR ''-''"
proof -
  from point_before_last_split [OF assms(1)] obtain a c
    where split: "point_before_last m = a @ ''.'' @ [c]"
      and chars: "set (a @ [c]) \<subseteq> insert CHR ''0'' (set m)"
    by blast
  show ?thesis
  proof (cases a)
    case Nil
    with split show ?thesis by simp
  next
    case (Cons b bs)
    with chars assms(2) have "b \<noteq> CHR ''-''"
      by auto
    with split Cons show ?thesis by simp
  qed
qed

lemma decimal_value_toFixed1:
  assumes "toFixed1 x = Some t"
  shows "decimal_value t =
     (if x < 0 then - 1 else 1) * of_nat (nat \<lfloor>\<bar>x\<bar> * 10 + 1 / 2\<rfloor>) / 10"
proof -
  let ?m = "digits (nat \<lfloor>\<bar>x\<bar> * 10 + 1 / 2\<rfloor>)"
  have t: "t = (if x < 0 then ''-'' else []) @ point_before_last ?m"
    using assms by (simp add: toFixed1_def split: if_splits)
  have denotes: "unsigned_value (point_before_last ?m) =
      of_nat (nat \<lfloor>\<bar>x\<bar> * 10 + 1 / 2\<rfloor>) / 10"
    using unsigned_value_point_before_last [OF digits_not_empty digits_no_point]
    by (simp add: digits_value_digits)
  show ?thesis
  proof (cases "x < 0")
    case True
    with t denotes show ?thesis
      by (simp add: decimal_value_def)
  next
    case False
    from point_before_last_no_sign [OF digits_not_empty digits_no_sign]
    obtain c r where "point_before_last ?m = c # r" and "c \<noteq> CHR ''-''"
      by blast
    with False t denotes show ?thesis
      by (simp add: decimal_value_def)
  qed
qed

text \<open>The text of \<open>toFixed(1)\<close> denotes a multiple of a tenth, at most a twentieth away.\<close>

lemma toFixed1_nearest_tenth:
  assumes "toFixed1 x = Some t"
  shows "(\<exists>k::int. decimal_value t = of_int k / 10) \<and> \<bar>decimal_value t - x\<bar> \<le> 1 / 20"
proof -
  let ?n = "\<lfloor>\<bar>x\<bar> * 10 + 1 / 2\<rfloor>"
  have nonneg: "0 \<le> ?n"
    by simp
  then have n: "(of_nat (nat ?n) :: real) = of_int ?n"
    by simp
  have denotes: "decimal_value t = (if x < 0 then - 1 else 1) * of_int ?n / 10"
    using decimal_value_toFixed1 [OF assms] n by simp
  have "of_int ?n \<le> \<bar>x\<bar> * 10 + 1 / 2" and "\<bar>x\<bar> * 10 + 1 / 2 < of_int ?n + 1"
    by linarith+
  then have near: "\<bar>of_int ?n / 10 - \<bar>x\<bar>\<bar> \<le> 1 / 20"
    by linarith
  have multiple: "\<exists>k::int. decimal_value t = of_int k / 10"
    unfolding denotes by (rule exI [of _ "(if x < 0 then - 1 else 1) * ?n"]) simp
  have "\<bar>decimal_value t - x\<bar> \<le> 1 / 20"
  proof (cases "x < 0")
    case True
    with near have "\<bar>- (of_int ?n / 10) - x\<bar> \<le> 1 / 20"
      by linarith
    with True show ?thesis
      by (simp add: denotes)
  next
    case False
    with near have "\<bar>of_int ?n / 10 - x\<bar> \<le> 1 / 20"
      by linarith
    with False show ?thesis
      by (simp add: denotes)
  qed
  with multiple show ?thesis
    by blast
qed

subsection \<open>Rounding to a double\<close>

lemma binade_bounds:
  assumes "x \<noteq> 0"
  shows "2 powi binade x \<le> \<bar>x\<bar> \<and> \<bar>x\<bar> < 2 powi (binade x + 1)"
proof (cases "1 \<le> \<bar>x\<bar>")
  case True
  let ?n = "\<lfloor>\<bar>x\<bar>\<rfloor>"
  from True have n: "0 < ?n"
    by linarith
  from bitlen_bounds [OF n] have lo: "2 ^ nat (bitlen ?n - 1) \<le> ?n"
    and hi: "?n < 2 ^ nat (bitlen ?n)"
    by simp_all
  from n have len: "1 \<le> bitlen ?n"
    by (simp add: bitlen_alt_def)
  have e: "binade x = bitlen ?n - 1"
    using True by (simp add: binade_def)
  from lo have "(2::real) ^ nat (bitlen ?n - 1) \<le> of_int ?n"
    by (metis of_int_le_iff of_int_numeral of_int_power)
  also have "\<dots> \<le> \<bar>x\<bar>"
    by simp
  finally have lower: "2 powi binade x \<le> \<bar>x\<bar>"
    using len by (simp add: e power_int_def)
  from hi have "?n + 1 \<le> 2 ^ nat (bitlen ?n)"
    by simp
  then have "(of_int (?n + 1) :: real) \<le> 2 ^ nat (bitlen ?n)"
    by (metis of_int_le_iff of_int_numeral of_int_power)
  moreover have "\<bar>x\<bar> < of_int (?n + 1)"
    by simp
  ultimately have "\<bar>x\<bar> < 2 ^ nat (bitlen ?n)"
    by linarith
  then have upper: "\<bar>x\<bar> < 2 powi (binade x + 1)"
    using len by (simp add: e power_int_def)
  from lower upper show ?thesis ..
next
  case False
  let ?y = "1 / \<bar>x\<bar>"
  let ?n = "\<lceil>?y\<rceil>"
  let ?k = "bitlen (?n - 1)"
  from False assms have x: "0 < \<bar>x\<bar>" "\<bar>x\<bar> < 1"
    by simp_all
  then have y: "1 < ?y"
    by simp
  then have n: "0 < ?n - 1"
    by linarith
  from bitlen_bounds [OF n] have lo: "2 ^ nat (?k - 1) \<le> ?n - 1"
    and hi: "?n - 1 < 2 ^ nat ?k"
    by simp_all
  from n have len: "1 \<le> ?k"
    by (simp add: bitlen_alt_def)
  have e: "binade x = - ?k"
    using False by (simp add: binade_def)
  from hi have "?n \<le> 2 ^ nat ?k"
    by simp
  then have "(of_int ?n :: real) \<le> 2 ^ nat ?k"
    by (metis of_int_le_iff of_int_numeral of_int_power)
  moreover have "?y \<le> of_int ?n"
    by simp
  ultimately have "?y \<le> 2 ^ nat ?k"
    by linarith
  with x have "1 / 2 ^ nat ?k \<le> \<bar>x\<bar>"
    by (simp add: field_simps)
  then have lower: "2 powi binade x \<le> \<bar>x\<bar>"
    using len by (simp add: e power_int_def field_simps)
  from lo have "(2::real) ^ nat (?k - 1) \<le> of_int (?n - 1)"
    by (metis of_int_le_iff of_int_numeral of_int_power)
  moreover have "of_int (?n - 1) < ?y"
    by linarith
  ultimately have "2 ^ nat (?k - 1) < ?y"
    by linarith
  with x have "\<bar>x\<bar> < 1 / 2 ^ nat (?k - 1)"
    by (simp add: field_simps)
  moreover have "2 powi (binade x + 1) = 1 / (2::real) ^ nat (?k - 1)"
  proof (cases "?k = 1")
    case True
    then show ?thesis by (simp add: e)
  next
    case False
    with len have "- ?k + 1 < 0" and "nat (?k - 1) = nat (- (- ?k + 1))"
      by simp_all
    then show ?thesis
      by (simp add: e power_int_def field_simps)
  qed
  ultimately have upper: "\<bar>x\<bar> < 2 powi (binade x + 1)"
    by simp
  from lower upper show ?thesis ..
qed

lemma round_half_even_near: "\<bar>of_int (round_half_even y) - y\<bar> \<le> 1 / 2"
proof -
  have "of_int \<lfloor>y\<rfloor> \<le> y" and "y < of_int \<lfloor>y\<rfloor> + 1"
    by linarith+
  then show ?thesis
    by (auto simp: round_half_even_def Let_def)
qed

text \<open>
  The significand of a rounded number has 53 bits, and rounding moves a number by at most
  the fraction \<open>1 / 2 ^ 53\<close> of its magnitude.
\<close>

lemma round_double_significand:
  assumes "x \<noteq> 0"
  shows "2 ^ 52 \<le> \<bar>round_half_even (x / 2 powi (binade x - 52))\<bar> \<and>
     \<bar>round_half_even (x / 2 powi (binade x - 52))\<bar> \<le> 2 ^ 53"
proof -
  let ?u = "(2::real) powi (binade x - 52)"
  let ?m = "round_half_even (x / ?u)"
  have u: "0 < ?u"
    by simp
  have scale: "2 powi binade x = 2 ^ 52 * ?u" "2 powi (binade x + 1) = 2 ^ 53 * ?u"
    by (simp_all add: power_int_diff power_int_add)
  from binade_bounds [OF assms] have "2 ^ 52 * ?u \<le> \<bar>x\<bar>" and "\<bar>x\<bar> < 2 ^ 53 * ?u"
    by (simp_all only: scale)
  with u have range: "2 ^ 52 \<le> \<bar>x / ?u\<bar>" "\<bar>x / ?u\<bar> < 2 ^ 53"
    by (simp_all add: field_simps)
  from round_half_even_near [of "x / ?u"] range
  have "2 ^ 52 - 1 / 2 \<le> \<bar>real_of_int ?m\<bar>" and "\<bar>real_of_int ?m\<bar> < 2 ^ 53 + 1 / 2"
    by linarith+
  then have "real_of_int (2 ^ 52 - 1) < real_of_int \<bar>?m\<bar>"
    and "real_of_int \<bar>?m\<bar> < real_of_int (2 ^ 53 + 1)"
    by simp_all
  then have "2 ^ 52 - 1 < \<bar>?m\<bar>" and "\<bar>?m\<bar> < 2 ^ 53 + 1"
    by (simp_all only: of_int_less_iff)
  then show ?thesis
    by simp
qed

lemma round_double_near: "\<bar>round_double x - x\<bar> \<le> \<bar>x\<bar> / 2 ^ 53"
proof (cases "x = 0")
  case True
  then show ?thesis by (simp add: round_double_def)
next
  case False
  let ?u = "(2::real) powi (binade x - 52)"
  have u: "0 < ?u"
    by simp
  have "round_double x - x = (of_int (round_half_even (x / ?u)) - x / ?u) * ?u"
    using False u by (simp add: round_double_def Let_def field_simps)
  then have "\<bar>round_double x - x\<bar> = \<bar>of_int (round_half_even (x / ?u)) - x / ?u\<bar> * ?u"
    using u by (simp add: abs_mult)
  also have "\<dots> \<le> 1 / 2 * ?u"
    using round_half_even_near [of "x / ?u"] u by (intro mult_right_mono) simp_all
  also have "\<dots> = 2 powi binade x / 2 ^ 53"
    by (simp add: power_int_diff)
  also have "\<dots> \<le> \<bar>x\<bar> / 2 ^ 53"
    using binade_bounds [OF False] by (simp add: divide_right_mono)
  finally show ?thesis .
qed

lemma round_double_below:
  assumes "\<bar>x\<bar> < 10 ^ 20"
  shows "\<bar>round_double x\<bar> < 10 ^ 21"
proof -
  define a where "a = \<bar>x\<bar>"
  define b where "b = (10::real) ^ 20"
  have "0 \<le> a"
    by (simp add: a_def)
  then have "a / 2 ^ 53 \<le> a"
    by simp
  moreover have "\<bar>round_double x - x\<bar> \<le> a / 2 ^ 53"
    unfolding a_def by (rule round_double_near)
  moreover have "a < b"
    using assms by (simp add: a_def b_def)
  ultimately have "\<bar>round_double x\<bar> < 2 * b"
    unfolding a_def by linarith
  also have "\<dots> \<le> 10 ^ 21"
    by (simp add: b_def)
  finally show ?thesis .
qed


subsection \<open>The average rating\<close>












subsection \<open>The number of lectures\<close>

lemma count_sum_list:
  "foldl (\<lambda>sum ch. sum + lectures_in ch) a chs = a + sum_list (map lectures_in chs)"
  by (induction chs arbitrary: a) simp_all

text \<open>
  When the course has a \<open>courseContent\<close> array, the number of lectures is the sum of the
  lengths of the lecture lists of its chapters, a chapter that is \<open>null\<close> or has no
  \<open>chapterContent\<close> counting as zero.
\<close>

lemma calculateNoOfLectures_sum:
  "courseContent c = Some chs \<Longrightarrow>
     calculateNoOfLectures (Some c) = JNumber (of_nat (sum_list (map lectures_in chs)))"
  by (simp add: calculateNoOfLectures_def count_sum_list)

lemma lectures_in_missing:
  "lectures_in None = 0" "lectures_in (Some \<lparr>fetched_chapterContent = None\<rparr>) = 0"
  "lectures_in (Some \<lparr>fetched_chapterContent = Some ls\<rparr>) = length ls"
  by (simp_all add: lectures_in_def)

text \<open>
  C8 does not hold of the source: for a course without \<open>courseContent\<close>, and for no course
  at all, the helper returns \<open>undefined\<close>, not zero. The optional chain yields \<open>undefined\<close>
  and nothing replaces it, where the helper for the time of a chapter ends in \<open>|| 0\<close>.
\<close>

theorem calculateNoOfLectures_absent_content:
  "calculateNoOfLectures (Some \<lparr>courseRatings = None, courseContent = None\<rparr>) = JUndefined
   \<and> calculateNoOfLectures None = JUndefined
   \<and> JUndefined \<noteq> JNumber 0"
  by (simp add: calculateNoOfLectures_def)

section \<open>Properties of fetching the profile\<close>

text \<open>
  In the copy of the provider that exposes \<open>isSignedIn\<close>, a signed-in user with a credential
  whose request is answered 404 gets the profile built from the signed-in user, with an empty
  list of enrolments and no notification; answered 401, the profile is cleared and the user
  is told to log in again.
\<close>

lemma fetchUserData_not_found_unauthorized:
  assumes "t \<noteq> []"
  shows "(response_status e = Some 404 \<longrightarrow>
            fetchUserData (Some u) (Resolves (Some t)) (Rejects e) s =
              s\<lparr>userData := Some (LocalUser
                   \<lparr>clerkId = user_id u,
                    email = (case user_emailAddresses u of None \<Rightarrow> None | Some [] \<Rightarrow> None
                             | Some (a # _) \<Rightarrow> Some a),
                    firstName = user_firstName u, lastName = user_lastName u,
                    enrolledCourses = []\<rparr>),
                userDataLoading := False\<rparr>)
      \<and> (response_status e = Some 401 \<longrightarrow>
            fetchUserData (Some u) (Resolves (Some t)) (Rejects e) s =
              s\<lparr>userData := None, userDataLoading := False,
                shown := shown s @
                  [ToastError (Some (js ''Authentication failed. Please login again.''))]\<rparr>)"
  using assms
  by (simp add: fetchUserData_def fetchUserData_catch_def local_user_data_def notify_error_def)

text \<open>
  C9 does not hold of the other copy of the provider: answered 404, it shows the notification
  \<open>Failed to load user profile\<close> and leaves the profile as it was, here absent; answered 401,
  it clears the profile and shows nothing.
\<close>

theorem fetchUserData_other_not_found:
  "fetchUserData_other (Some example_user) (Resolves (Some (js ''token''))) (Rejects (status_error 404))
      \<lparr>userData = None :: unit user_data option, userDataLoading = True, shown = []\<rparr> =
     \<lparr>userData = None, userDataLoading = False,
      shown = [ToastError (Some (js ''Failed to load user profile''))]\<rparr>
   \<and> fetchUserData_other (Some example_user) (Resolves (Some (js ''token'')))
        (Rejects (status_error 401))
      \<lparr>userData = Some (BackendUser ()), userDataLoading = True, shown = []\<rparr> =
     \<lparr>userData = None, userDataLoading = False, shown = []\<rparr>
   \<and> fetchUserData (Some example_user) (Resolves (Some (js ''token''))) (Rejects (status_error 404))
      \<lparr>userData = None :: unit user_data option, userDataLoading = True, shown = []\<rparr> =
     \<lparr>userData = Some (LocalUser
        \<lparr>clerkId = js ''user_1'', email = Some (js ''ada@example.org''),
         firstName = Some (js ''Ada''), lastName = Some (js ''Byron''), enrolledCourses = []\<rparr>),
      userDataLoading = False, shown = []\<rparr>"
  by (simp add: fetchUserData_other_def fetchUserData_other_catch_def fetchUserData_def
      fetchUserData_catch_def local_user_data_def notify_error_def or_else_def
      example_user_def status_error_def js_def)

end
